theory Spec2Isabelle
  imports Main "HOL-Library.Word"
begin

unbundle bit_operations_syntax

section \<open>Data model (types.h)\<close>

text \<open>
  \<^verbatim>\<open>XLogRecPtr\<close> is \<^verbatim>\<open>uint64_t\<close>, \<^verbatim>\<open>TimeLineID\<close> is \<^verbatim>\<open>uint32_t\<close>; both are
  machine words whose arithmetic wraps. \<^verbatim>\<open>time_t\<close> is a signed count of seconds and
  is only compared, so it is an \<open>int\<close>. Fixed-size character buffers holding C strings
  are \<open>string\<close>s; a C string has no embedded NUL, and the empty string is the buffer
  whose first byte is NUL.
\<close>

type_synonym XLogRecPtr = "64 word"
type_synonym TimeLineID = "32 word"

datatype BackupType =
  BACKUP_TYPE_FULL | BACKUP_TYPE_INCREMENTAL | BACKUP_TYPE_PAGE | BACKUP_TYPE_DELTA | BACKUP_TYPE_PTRACK

datatype BackupTool =
  BACKUP_TOOL_UNKNOWN | BACKUP_TOOL_PG_BASEBACKUP | BACKUP_TOOL_PG_PROBACKUP

datatype BackupStatus =
  BACKUP_STATUS_OK | BACKUP_STATUS_RUNNING | BACKUP_STATUS_CORRUPT | BACKUP_STATUS_ERROR
  | BACKUP_STATUS_ORPHAN | BACKUP_STATUS_WARNING

text \<open>The C field \<^verbatim>\<open>type\<close> is \<open>backup_type\<close> here; the list link \<^verbatim>\<open>next\<close> is left out.\<close>

record BackupInfo =
  backup_id :: string
  node_name :: string
  instance_name :: string
  backup_type :: BackupType
  tool :: BackupTool
  status :: BackupStatus
  start_time :: int
  end_time :: int
  start_lsn :: XLogRecPtr
  stop_lsn :: XLogRecPtr
  timeline :: TimeLineID
  pg_version :: "32 word"
  tool_version :: string
  parent_backup_id :: string
  backup_path :: string
  data_bytes :: "64 word"
  wal_bytes :: "64 word"
  backup_method :: string
  backup_from :: string
  backup_label :: string
  wal_start_file :: string

text \<open>A record as \<^verbatim>\<open>calloc\<close> or \<^verbatim>\<open>memset(.., 0, ..)\<close> leaves it: every byte zero.\<close>

definition zeroed_backup :: BackupInfo where
  "zeroed_backup =
     \<lparr> backup_id = [], node_name = [], instance_name = [],
       backup_type = BACKUP_TYPE_FULL, tool = BACKUP_TOOL_UNKNOWN, status = BACKUP_STATUS_OK,
       start_time = 0, end_time = 0, start_lsn = 0, stop_lsn = 0, timeline = 0, pg_version = 0,
       tool_version = [], parent_backup_id = [], backup_path = [],
       data_bytes = 0, wal_bytes = 0,
       backup_method = [], backup_from = [], backup_label = [], wal_start_file = [] \<rparr>"

text \<open>\<^verbatim>\<open>WALSegmentName\<close>: the C field \<^verbatim>\<open>timeline\<close> is \<open>seg_timeline\<close> here.\<close>

record WALSegmentName =
  seg_timeline :: "32 word"
  log_id :: "32 word"
  seg_id :: "32 word"

text \<open>
  \<^verbatim>\<open>WALArchiveInfo\<close>: \<open>segments\<close> is \<open>None\<close> for the NULL pointer; the array holds
  at least \<open>segment_count\<close> elements, and the code reads the first \<open>segment_count\<close>
  of them.
\<close>

record WALArchiveInfo =
  archive_path :: string
  segment_count :: int
  segments :: "WALSegmentName list option"

text \<open>
  \<^verbatim>\<open>ValidationResult\<close>: the C field \<^verbatim>\<open>status\<close> is \<open>result_status\<close> here. The two
  counters are C \<^verbatim>\<open>int\<close>s, which hold at most \<open>INT_MAX\<close>; they count the messages
  appended to the two arrays. Metadata validation appends at most nine messages; the
  WAL range loop, which can append many more, tests every increment against \<open>INT_MAX\<close>.
\<close>

definition INT_MAX :: int where
  "INT_MAX = 2147483647"

record ValidationResult =
  result_status :: BackupStatus
  error_count :: int
  warning_count :: int
  errors :: "string list"
  warnings :: "string list"

section \<open>Characters and number formatting (libc)\<close>

definition isxdigit :: "char \<Rightarrow> bool" where
  "isxdigit c = (let n = (of_char c :: nat) in
     (48 \<le> n \<and> n \<le> 57) \<or> (65 \<le> n \<and> n \<le> 70) \<or> (97 \<le> n \<and> n \<le> 102))"

text \<open>\<^verbatim>\<open>isspace\<close> in the C locale: space, \<^verbatim>\<open>\t \n \v \f \r\<close>.\<close>

definition isspace :: "char \<Rightarrow> bool" where
  "isspace c = (let n = (of_char c :: nat) in n = 32 \<or> (9 \<le> n \<and> n \<le> 13))"

definition hexdigit_val :: "char \<Rightarrow> nat" where
  "hexdigit_val c = (let n = (of_char c :: nat) in
     if n \<le> 57 then n - 48 else if n \<le> 70 then n - 55 else n - 87)"

definition hexval :: "string \<Rightarrow> nat" where
  "hexval ds = foldl (\<lambda>a c. 16 * a + hexdigit_val c) 0 ds"

text \<open>The digit characters of the conversions, for a digit below the base.\<close>

definition hex_char_upper :: "nat \<Rightarrow> char" where
  "hex_char_upper d = ''0123456789ABCDEF'' ! d"

definition dec_char :: "nat \<Rightarrow> char" where
  "dec_char d = ''0123456789'' ! d"

text \<open>The \<^verbatim>\<open>%X\<close> conversion: upper-case hexadecimal, no padding, \<^verbatim>\<open>0\<close> for zero.\<close>

fun fmt_X :: "nat \<Rightarrow> string" where
  "fmt_X n = (if n < 16 then [hex_char_upper n]
              else fmt_X (n div 16) @ [hex_char_upper (n mod 16)])"

declare fmt_X.simps [simp del]

text \<open>The \<^verbatim>\<open>%08X\<close> conversion: as \<^verbatim>\<open>%X\<close>, zero-padded on the left to width 8.\<close>

definition fmt_08X :: "nat \<Rightarrow> string" where
  "fmt_08X n = (let s = fmt_X n in replicate (8 - length s) (CHR ''0'') @ s)"

text \<open>The \<^verbatim>\<open>%u\<close> family (\<^verbatim>\<open>PRIu64\<close>) and \<^verbatim>\<open>%ld\<close>: decimal.\<close>

fun fmt_u :: "nat \<Rightarrow> string" where
  "fmt_u n = (if n < 10 then [dec_char n]
              else fmt_u (n div 10) @ [dec_char (n mod 10)])"

declare fmt_u.simps [simp del]

definition fmt_ld :: "int \<Rightarrow> string" where
  "fmt_ld i = (if i < 0 then CHR ''-'' # fmt_u (nat (- i)) else fmt_u (nat i))"

section \<open>LSN and WAL utilities (xlog.c)\<close>

text \<open>
  \<^verbatim>\<open>lsn_to_seg\<close>: segment number = LSN / segment size (16 MiB when the size is 0);
  log id = number / 2^32, segment id = number mod 2^32, both cast to \<^verbatim>\<open>uint32_t\<close>.
\<close>

definition lsn_to_seg :: "XLogRecPtr \<Rightarrow> 32 word \<Rightarrow> 32 word \<Rightarrow> WALSegmentName" where
  "lsn_to_seg lsn tli wal_segment_size =
     (let sz = (if wal_segment_size = 0 then 0x1000000 else wal_segment_size);
          segment_number = lsn div (ucast sz :: 64 word)
      in \<lparr> seg_timeline = tli,
           log_id = ucast (segment_number div 0x100000000),
           seg_id = ucast (segment_number mod 0x100000000) \<rparr>)"

section \<open>WAL availability (wal_validator.c)\<close>

text \<open>
  \<^verbatim>\<open>segment_exists_in_archive\<close>: a linear search over the first \<open>segment_count\<close>
  entries; false when the array pointer is NULL.
\<close>

definition segment_exists_in_archive :: "WALSegmentName \<Rightarrow> WALArchiveInfo \<Rightarrow> bool" where
  "segment_exists_in_archive seg wal_info =
     (case segments wal_info of
        None \<Rightarrow> False
      | Some segs \<Rightarrow>
          list_ex (\<lambda>archived. seg_timeline archived = seg_timeline seg
                             \<and> log_id archived = log_id seg
                             \<and> seg_id archived = seg_id seg)
                  (take (nat (segment_count wal_info)) segs))"

text \<open>
  The two error messages; both fit the 512 bytes of \<^verbatim>\<open>msg_buf\<close>. The first is
  \<^verbatim>\<open>"Missing WAL segment: %08X%08X%08X"\<close> of timeline, log id and segment id.
\<close>

definition missing_segment_msg :: "WALSegmentName \<Rightarrow> string" where
  "missing_segment_msg seg =
     ''Missing WAL segment: '' @ fmt_08X (unat (seg_timeline seg))
       @ fmt_08X (unat (log_id seg)) @ fmt_08X (unat (seg_id seg))"

definition too_many_segments_msg :: string where
  "too_many_segments_msg = ''WAL range check aborted: too many segments''"

text \<open>
  "Move to next segment": \<^verbatim>\<open>seg_id++\<close>, and \<^verbatim>\<open>log_id++\<close> when the segment id has
  wrapped to 0. Both are \<^verbatim>\<open>uint32_t\<close>.
\<close>

definition next_segment :: "WALSegmentName \<Rightarrow> WALSegmentName" where
  "next_segment current_seg =
     (let seg1 = seg_id current_seg + 1
      in current_seg\<lparr> seg_id := seg1,
                       log_id := (if seg1 = 0 then log_id current_seg + 1
                                  else log_id current_seg) \<rparr>)"

text \<open>
  The \<^verbatim>\<open>while\<close> loop of \<^verbatim>\<open>check_wal_availability\<close>. The state is the current
  segment, the result under construction and \<^verbatim>\<open>missing_count\<close>. The comparisons and
  increments of the segment are on \<^verbatim>\<open>uint32_t\<close> and wrap. The two counters
  \<^verbatim>\<open>missing_count\<close> and \<^verbatim>\<open>result->error_count\<close> are \<^verbatim>\<open>int\<close>s: \<^verbatim>\<open>++\<close> on a
  counter that holds \<open>INT_MAX\<close> is a signed overflow, which C leaves undefined; where
  it wraps to \<^verbatim>\<open>INT_MIN\<close>, the unchecked \<^verbatim>\<open>realloc\<close> of
  \<^verbatim>\<open>error_count * sizeof(char *)\<close> bytes that follows cannot succeed and the next
  store goes through a null pointer. Such a run ends with the outcome \<open>Int_overflow\<close>:
  it hands no result to the code after the loop. The loop is defined as a partial
  function: \<open>None\<close> stands for a run that never leaves the loop.
\<close>

datatype loop_outcome = Loop_done ValidationResult int | Int_overflow

partial_function (option) wal_range_loop ::
  "WALSegmentName \<Rightarrow> WALArchiveInfo \<Rightarrow> WALSegmentName \<Rightarrow> ValidationResult \<Rightarrow> int
     \<Rightarrow> loop_outcome option" where
  "wal_range_loop stop_seg wal_info current_seg result missing_count =
     (if log_id current_seg < log_id stop_seg
         \<or> (log_id current_seg = log_id stop_seg \<and> seg_id current_seg \<le> seg_id stop_seg)
      then
        (let missing = \<not> segment_exists_in_archive current_seg wal_info
         in if missing \<and> (missing_count = INT_MAX \<or> error_count result = INT_MAX)
            then Some Int_overflow
            else
              (let missing_count1 = (if missing then missing_count + 1 else missing_count);
                   result1 = (if missing
                              then result\<lparr> error_count := error_count result + 1,
                                           errors := errors result
                                                       @ [missing_segment_msg current_seg] \<rparr>
                              else result);
                   next_seg = next_segment current_seg
               in if log_id next_seg > log_id stop_seg + 1
                  then (if error_count result1 = INT_MAX then Some Int_overflow
                        else Some (Loop_done
                                     (result1\<lparr> error_count := error_count result1 + 1,
                                               errors := errors result1
                                                           @ [too_many_segments_msg] \<rparr>)
                                     missing_count1))
                  else wal_range_loop stop_seg wal_info next_seg result1 missing_count1))
      else Some (Loop_done result missing_count))"

declare wal_range_loop.simps [code]

definition empty_result :: ValidationResult where
  "empty_result = \<lparr> result_status = BACKUP_STATUS_OK, error_count = 0, warning_count = 0,
                     errors = [], warnings = [] \<rparr>"

text \<open>
  \<^verbatim>\<open>check_wal_availability\<close>, for non-NULL arguments and successful allocations
  (the C function returns NULL when \<^verbatim>\<open>calloc\<close> fails). Logging is left out. \<open>None\<close>
  stands for a run that returns no result: the loop does not end, or it ends in
  \<open>Int_overflow\<close>.
\<close>

definition check_wal_availability :: "BackupInfo \<Rightarrow> WALArchiveInfo \<Rightarrow> ValidationResult option" where
  "check_wal_availability backup wal_info =
     (if start_lsn backup = 0 \<and> stop_lsn backup = 0
      then Some (empty_result\<lparr> result_status := BACKUP_STATUS_WARNING,
                               warning_count := 1,
                               warnings := [''Backup has no LSN information''] \<rparr>)
      else
        (let start_seg = lsn_to_seg (start_lsn backup) (timeline backup) 0x1000000;
             stop_seg = lsn_to_seg (stop_lsn backup) (timeline backup) 0x1000000
         in case wal_range_loop stop_seg wal_info start_seg empty_result 0 of
              None \<Rightarrow> None
            | Some Int_overflow \<Rightarrow> None
            | Some (Loop_done result missing_count) \<Rightarrow>
                Some (if missing_count > 0
                      then result\<lparr> result_status := BACKUP_STATUS_ERROR \<rparr>
                      else result)))"

section \<open>The expected segment range\<close>

text \<open>
  The range a backup requires, stated on segment numbers: a segment \<open>(log, seg)\<close> has
  the number \<open>log * 2^32 + seg\<close>, so counting up wraps the segment id into the log id.
  The expected segments are those numbered from the segment of the start LSN to the
  segment of the stop LSN, inclusive, for the 16 MiB segment size. The inventory of a
  WAL archive is the set of the segment names held in the first \<open>segment_count\<close>
  entries of its array (no segment when the array is missing); an expected segment is
  missing when it is not a member of that set. The canonical file name of a segment is
  24 hexadecimal digits: timeline, log id, segment id.
\<close>

definition seg_number :: "WALSegmentName \<Rightarrow> nat" where
  "seg_number s = unat (log_id s) * 2 ^ 32 + unat (seg_id s)"

definition seg_of_number :: "32 word \<Rightarrow> nat \<Rightarrow> WALSegmentName" where
  "seg_of_number tli n =
     \<lparr> seg_timeline = tli, log_id = of_nat (n div 2 ^ 32), seg_id = of_nat (n mod 2 ^ 32) \<rparr>"

definition expected_segments :: "BackupInfo \<Rightarrow> WALSegmentName list" where
  "expected_segments backup =
     map (seg_of_number (timeline backup))
         [unat (start_lsn backup) div 2 ^ 24 ..< Suc (unat (stop_lsn backup) div 2 ^ 24)]"

definition inventory_segments :: "WALArchiveInfo \<Rightarrow> WALSegmentName set" where
  "inventory_segments wal_info =
     (case segments wal_info of
        None \<Rightarrow> {}
      | Some segs \<Rightarrow> set (take (nat (segment_count wal_info)) segs))"

definition missing_segments :: "BackupInfo \<Rightarrow> WALArchiveInfo \<Rightarrow> WALSegmentName list" where
  "missing_segments backup wal_info =
     filter (\<lambda>s. s \<notin> inventory_segments wal_info) (expected_segments backup)"


section \<open>String helpers (libc, string_utils.c)\<close>

text \<open>
  \<^verbatim>\<open>strchr\<close> and \<^verbatim>\<open>strrchr\<close> return the offset of the first (last) occurrence of
  the character, \<open>None\<close> for the NULL pointer.
\<close>

definition strchr :: "string \<Rightarrow> char \<Rightarrow> nat option" where
  "strchr s c = (if c \<in> set s then Some (length (takeWhile (\<lambda>x. x \<noteq> c) s)) else None)"

definition strrchr :: "string \<Rightarrow> char \<Rightarrow> nat option" where
  "strrchr s c = (if c \<in> set s
                  then Some (length s - 1 - length (takeWhile (\<lambda>x. x \<noteq> c) (rev s)))
                  else None)"

text \<open>
  \<^verbatim>\<open>strtoul(nptr, &endptr, 16)\<close> with a 64-bit \<^verbatim>\<open>unsigned long\<close> (LP64): leading
  white space is skipped, one sign is accepted, a \<^verbatim>\<open>0x\<close> or \<^verbatim>\<open>0X\<close> prefix is accepted
  when a hexadecimal digit follows it, then the longest run of hexadecimal digits is
  read. The result is the value and the offset of \<^verbatim>\<open>endptr\<close> from \<^verbatim>\<open>nptr\<close>; with no
  digit the value is 0 and \<^verbatim>\<open>endptr = nptr\<close>. A value beyond the type is \<^verbatim>\<open>ULONG_MAX\<close>;
  a minus sign negates the value in the unsigned type.
\<close>

definition strtoul16 :: "string \<Rightarrow> 64 word \<times> nat" where
  "strtoul16 s =
     (let ws = length (takeWhile isspace s);
          s1 = drop ws s;
          neg = (case s1 of [] \<Rightarrow> False | c # _ \<Rightarrow> c = CHR ''-'');
          sg = (case s1 of [] \<Rightarrow> 0 | c # _ \<Rightarrow> if c = CHR ''-'' \<or> c = CHR ''+'' then 1 else 0);
          s2 = drop sg s1;
          px = (case s2 of
                  a # b # c # _ \<Rightarrow>
                    if a = CHR ''0'' \<and> (b = CHR ''x'' \<or> b = CHR ''X'') \<and> isxdigit c then 2 else 0
                | _ \<Rightarrow> (0::nat));
          s3 = drop px s2;
          ds = takeWhile isxdigit s3
      in if ds = [] then (0, 0)
         else (let v = hexval ds
               in (if 2 ^ 64 \<le> v then - 1 else if neg then - of_nat v else of_nat v,
                   ws + sg + px + length ds)))"

text \<open>
  \<^verbatim>\<open>parse_lsn\<close>, for non-NULL arguments: \<open>None\<close> is \<^verbatim>\<open>false\<close>, \<open>Some lsn\<close> is
  \<^verbatim>\<open>true\<close> with \<^verbatim>\<open>*lsn\<close> written. \<^verbatim>\<open>*endptr != '\0'\<close> holds when \<^verbatim>\<open>endptr\<close> is not
  at the end of the string.
\<close>

definition parse_lsn :: "string \<Rightarrow> XLogRecPtr option" where
  "parse_lsn str =
     (case strchr str (CHR ''/'') of
        None \<Rightarrow> None
      | Some slash_pos \<Rightarrow>
          (let (upper, endptr) = strtoul16 str
           in if endptr \<noteq> slash_pos then None
              else (let rest = drop (slash_pos + 1) str;
                        (lower, endptr2) = strtoul16 rest
                    in if endptr2 \<noteq> length rest then None
                       else Some (push_bit 32 upper OR lower))))"

text \<open>
  Two notions for stating what \<open>parse_lsn\<close> does on runs of hexadecimal digits.
  \<open>strtoul_value\<close> is the value \<^verbatim>\<open>strtoul\<close> returns for an unsigned run of digits of
  value \<open>n\<close>. \<open>hex_stop t\<close> says that the text \<open>t\<close> ends a run of hexadecimal digits
  and cannot continue it as a \<^verbatim>\<open>0x\<close> prefix: it is empty or starts with a character
  that is neither a hexadecimal digit nor \<^verbatim>\<open>x\<close> or \<^verbatim>\<open>X\<close>.
\<close>

definition strtoul_value :: "nat \<Rightarrow> 64 word" where
  "strtoul_value n = (if 2 ^ 64 \<le> n then - 1 else of_nat n)"

definition hex_stop :: "string \<Rightarrow> bool" where
  "hex_stop t = (case t of [] \<Rightarrow> True
                  | c # _ \<Rightarrow> \<not> isxdigit c \<and> c \<noteq> CHR ''x'' \<and> c \<noteq> CHR ''X'')"

text \<open>\<^verbatim>\<open>snprintf\<close> writes at most \<open>bufsize - 1\<close> characters of the formatted text.\<close>

definition snprintf_buf :: "nat \<Rightarrow> string \<Rightarrow> string" where
  "snprintf_buf bufsize s = take (bufsize - 1) s"

definition format_lsn :: "XLogRecPtr \<Rightarrow> nat \<Rightarrow> string" where
  "format_lsn lsn bufsize =
     snprintf_buf bufsize
       (fmt_X (unat (ucast (drop_bit 32 lsn) :: 32 word)) @ ''/''
          @ fmt_X (unat (ucast lsn :: 32 word)))"

definition is_hex_string :: "string \<Rightarrow> nat \<Rightarrow> bool" where
  "is_hex_string str len = list_all isxdigit (take len str)"

text \<open>
  \<^verbatim>\<open>parse_wal_filename\<close> of the implemented revision of xlog.c, for non-NULL arguments.
  (An earlier revision of the file in the repository is a stub that returns
  \<^verbatim>\<open>false\<close> for every name.)
\<close>

definition parse_wal_filename :: "string \<Rightarrow> WALSegmentName option" where
  "parse_wal_filename filename =
     (if length filename \<noteq> 24 then None
      else if \<not> is_hex_string filename 24 then None
      else (let timeline_str = take 8 filename;
                (tli, e1) = strtoul16 timeline_str
            in if e1 \<noteq> length timeline_str then None
               else (let log_id_str = take 8 (drop 8 filename);
                         (lg, e2) = strtoul16 log_id_str
                     in if e2 \<noteq> length log_id_str then None
                        else (let seg_id_str = take 8 (drop 16 filename);
                                  (sg, e3) = strtoul16 seg_id_str
                              in if e3 \<noteq> length seg_id_str then None
                                 else Some \<lparr> seg_timeline = ucast tli,
                                             log_id = ucast lg,
                                             seg_id = ucast sg \<rparr>))))"

text \<open>\<^verbatim>\<open>str_copy\<close>: at most \<open>destsize - 1\<close> characters are copied.\<close>

definition str_copy :: "string \<Rightarrow> nat \<Rightarrow> string" where
  "str_copy src destsize = take (destsize - 1) src"

section \<open>File system (file_utils.c)\<close>

text \<open>
  The file system is a parameter: what \<^verbatim>\<open>stat\<close> reports for a path (\<open>None\<close> when it
  fails), the entry names \<^verbatim>\<open>readdir\<close> delivers (\<open>None\<close> when \<^verbatim>\<open>opendir\<close> fails),
  and the lines \<^verbatim>\<open>fgets\<close> delivers from a file opened for reading (\<open>None\<close> when
  \<^verbatim>\<open>fopen\<close> fails).
\<close>

datatype file_kind = Directory | Regular_file | Other_file

record filesystem =
  fs_stat :: "string \<Rightarrow> file_kind option"
  fs_readdir :: "string \<Rightarrow> string list option"
  fs_fopen :: "string \<Rightarrow> string list option"

definition PATH_MAX :: nat where
  "PATH_MAX = 4096"

definition file_exists :: "filesystem \<Rightarrow> string \<Rightarrow> bool" where
  "file_exists fs path = (fs_stat fs path \<noteq> None)"

definition is_directory :: "filesystem \<Rightarrow> string \<Rightarrow> bool" where
  "is_directory fs path = (fs_stat fs path = Some Directory)"

text \<open>
  \<^verbatim>\<open>path_join\<close>: the first path, a separator unless it is empty or ends with one,
  then the second path without its leading slash; everything cut to the buffer.
\<close>

definition path_join :: "nat \<Rightarrow> string \<Rightarrow> string \<Rightarrow> string" where
  "path_join destsize path1 path2 =
     (let len1 = length path1;
          dest0 = str_copy path1 destsize;
          sep = (len1 > 0 \<and> len1 + 1 < destsize \<and> last path1 \<noteq> CHR ''/'');
          dest1 = (if sep then dest0 @ ''/'' else dest0);
          len1' = (if sep then len1 + 1 else len1);
          p2 = (case path2 of [] \<Rightarrow> [] | c # cs \<Rightarrow> if c = CHR ''/'' then cs else path2)
      in if len1' < destsize then dest1 @ str_copy p2 (destsize - len1') else dest1)"

section \<open>Metadata validation (backup_validator.c)\<close>

definition add_error :: "ValidationResult \<Rightarrow> string \<Rightarrow> ValidationResult" where
  "add_error result message =
     result\<lparr> errors := errors result @ [message], error_count := error_count result + 1 \<rparr>"

definition add_warning :: "ValidationResult \<Rightarrow> string \<Rightarrow> ValidationResult" where
  "add_warning result message =
     result\<lparr> warnings := warnings result @ [message], warning_count := warning_count result + 1 \<rparr>"

definition lsn_range_msg :: "XLogRecPtr \<Rightarrow> XLogRecPtr \<Rightarrow> string" where
  "lsn_range_msg a b =
     ''Invalid LSN range: start_lsn ('' @ fmt_u (unat a) @ '') >= stop_lsn ('' @ fmt_u (unat b) @ '')''"

definition timestamps_msg :: "int \<Rightarrow> int \<Rightarrow> string" where
  "timestamps_msg a b =
     ''Invalid timestamps: start_time ('' @ fmt_ld a @ '') >= end_time ('' @ fmt_ld b @ '')''"

text \<open>
  \<^verbatim>\<open>validate_backup_metadata\<close>, for a non-NULL record and successful allocations,
  in two parts: the checks, in the order of the source, and the final status. The
  messages fit the buffer (\<^verbatim>\<open>PATH_MAX + 100\<close> bytes). What the function prints is
  left out.
\<close>

definition metadata_checks :: "filesystem \<Rightarrow> BackupInfo \<Rightarrow> ValidationResult" where
  "metadata_checks fs info =
     (let r0 = empty_result;
          r1 = (if backup_id info = [] then add_error r0 ''Missing backup_id'' else r0);
          r2 = (if backup_path info = [] then add_error r1 ''Missing backup_path'' else r1);
          r3 = (if backup_path info \<noteq> [] \<and> \<not> is_directory fs (backup_path info)
                then add_error r2 (''Backup path does not exist: '' @ backup_path info) else r2);
          r4 = (if start_time info = 0 then add_warning r3 ''Missing start_time'' else r3);
          r5 = (if end_time info = 0 \<and> status info = BACKUP_STATUS_OK
                then add_warning r4 ''Missing end_time for completed backup'' else r4);
          r6 = (if start_time info > 0 \<and> end_time info > 0 \<and> start_time info \<ge> end_time info
                then add_error r5 (timestamps_msg (start_time info) (end_time info)) else r5);
          r7 = (if start_lsn info > 0 \<and> stop_lsn info > 0 \<and> start_lsn info \<ge> stop_lsn info
                then add_error r6 (lsn_range_msg (start_lsn info) (stop_lsn info)) else r6);
          r8 = (if timeline info = 0 then add_warning r7 ''Missing timeline ID'' else r7);
          r9 = (if pg_version info = 0 then add_warning r8 ''Missing PostgreSQL version'' else r8)
      in r9)"

definition validate_backup_metadata :: "filesystem \<Rightarrow> BackupInfo \<Rightarrow> ValidationResult" where
  "validate_backup_metadata fs info =
     (let result = metadata_checks fs info
      in result\<lparr> result_status :=
                   (if error_count result > 0 then BACKUP_STATUS_ERROR
                    else if warning_count result > 0 then BACKUP_STATUS_WARNING
                    else BACKUP_STATUS_OK) \<rparr>)"

text \<open>The two counters count the messages.\<close>

definition counts_ok :: "ValidationResult \<Rightarrow> bool" where
  "counts_ok r = (error_count r = int (length (errors r))
                  \<and> warning_count r = int (length (warnings r)))"

section \<open>pg_basebackup adapter: detection (pg_basebackup.c)\<close>

text \<open>\<^verbatim>\<open>is_tar_format\<close>: some directory entry has a name that starts with \<^verbatim>\<open>base.tar\<close>.\<close>

definition is_tar_format :: "filesystem \<Rightarrow> string \<Rightarrow> bool" where
  "is_tar_format fs path =
     (case fs_readdir fs path of
        None \<Rightarrow> False
      | Some entries \<Rightarrow> list_ex (\<lambda>d_name. take 8 d_name = ''base.tar'') entries)"

definition is_plain_format :: "filesystem \<Rightarrow> string \<Rightarrow> bool" where
  "is_plain_format fs path =
     (let has_base = is_directory fs (path_join PATH_MAX path ''base'');
          has_global = is_directory fs (path_join PATH_MAX path ''global'');
          has_marker = (file_exists fs (path_join PATH_MAX path ''backup_label'')
                        \<or> file_exists fs (path_join PATH_MAX path ''backup_manifest''))
      in has_base \<and> has_global \<and> has_marker)"

text \<open>
  \<^verbatim>\<open>pg_basebackup_detect\<close>. The parent directory is computed on the text of the path:
  everything before the last slash, when there is a slash and it is not the first
  character.
\<close>

definition parent_has_control :: "filesystem \<Rightarrow> string \<Rightarrow> bool" where
  "parent_has_control fs path =
     (case strrchr path (CHR ''/'') of
        None \<Rightarrow> False
      | Some last_slash \<Rightarrow>
          last_slash \<noteq> 0 \<and> last_slash < PATH_MAX
          \<and> file_exists fs (path_join PATH_MAX (take last_slash path) ''backup.control''))"

definition pg_basebackup_detect :: "filesystem \<Rightarrow> string \<Rightarrow> bool" where
  "pg_basebackup_detect fs path =
     (if \<not> is_directory fs path then False
      else if parent_has_control fs path then False
      else if is_tar_format fs path then True
      else if is_plain_format fs path then True
      else False)"

section \<open>pg_probackup adapter (pg_probackup.c)\<close>

definition pg_probackup_detect :: "filesystem \<Rightarrow> string \<Rightarrow> bool" where
  "pg_probackup_detect fs path =
     (if \<not> is_directory fs path then False
      else (let has_control = file_exists fs (path_join PATH_MAX path ''backup.control'');
                has_database = is_directory fs (path_join PATH_MAX path ''database'')
            in has_control \<and> has_database))"

text \<open>
  Decimal input of libc (glibc, LP64). \<open>scan_decimal\<close> reads white space, an optional
  sign and at least one digit; it returns the number written there and the rest of the
  input. \<^verbatim>\<open>strtol\<close> clamps that number to the range of \<^verbatim>\<open>long\<close>. The \<^verbatim>\<open>%d\<close>
  conversion of \<^verbatim>\<open>sscanf\<close> (\<open>scan_int\<close>) and \<^verbatim>\<open>atoi\<close> convert with \<^verbatim>\<open>strtol\<close>
  and store the \<^verbatim>\<open>long\<close> in an \<^verbatim>\<open>int\<close>, which keeps its low 32 bits (\<open>int32\<close>,
  two's complement); \<^verbatim>\<open>atoi\<close> is 0 when there is no number.
  \<^verbatim>\<open>strtoull(.., NULL, 10)\<close> is \<^verbatim>\<open>ULLONG_MAX\<close> beyond the type and negates in the
  unsigned type.
\<close>

definition isdigit :: "char \<Rightarrow> bool" where
  "isdigit c = (let n = (of_char c :: nat) in 48 \<le> n \<and> n \<le> 57)"

definition decval :: "string \<Rightarrow> nat" where
  "decval ds = foldl (\<lambda>a c. 10 * a + (of_char c - 48)) 0 ds"

definition scan_decimal :: "string \<Rightarrow> (int \<times> string) option" where
  "scan_decimal s =
     (let s1 = dropWhile isspace s;
          neg = (case s1 of [] \<Rightarrow> False | c # _ \<Rightarrow> c = CHR ''-'');
          s2 = (case s1 of [] \<Rightarrow> [] | c # cs \<Rightarrow> if c = CHR ''-'' \<or> c = CHR ''+'' then cs else s1);
          ds = takeWhile isdigit s2
      in if ds = [] then None
         else Some (if neg then - int (decval ds) else int (decval ds), dropWhile isdigit s2))"

definition LONG_MAX :: int where
  "LONG_MAX = 9223372036854775807"

definition strtol_value :: "int \<Rightarrow> int" where
  "strtol_value n = (if LONG_MAX < n then LONG_MAX
                     else if n < - LONG_MAX - 1 then - LONG_MAX - 1
                     else n)"

definition int32 :: "int \<Rightarrow> int" where
  "int32 n = sint (word_of_int n :: 32 word)"

definition scan_int :: "string \<Rightarrow> (int \<times> string) option" where
  "scan_int s =
     (case scan_decimal s of
        None \<Rightarrow> None
      | Some (n, rest) \<Rightarrow> Some (int32 (strtol_value n), rest))"

definition atoi :: "string \<Rightarrow> int" where
  "atoi s = (case scan_decimal s of None \<Rightarrow> 0 | Some (n, _) \<Rightarrow> int32 (strtol_value n))"

definition strtoull10 :: "string \<Rightarrow> 64 word" where
  "strtoull10 s =
     (case scan_decimal s of
        None \<Rightarrow> 0
      | Some (n, _) \<Rightarrow> if 2 ^ 64 \<le> \<bar>n\<bar> then - 1 else of_int n)"

definition expect_char :: "char \<Rightarrow> string \<Rightarrow> string option" where
  "expect_char c s = (case s of [] \<Rightarrow> None | d # ds \<Rightarrow> if d = c then Some ds else None)"

text \<open>
  \<^verbatim>\<open>sscanf(str, "%d-%d-%d %d:%d:%d", ..) == 6\<close>: the six numbers, \<open>None\<close> when fewer
  are converted. The blank of the format matches any amount of white space, which
  the following \<^verbatim>\<open>%d\<close> skips anyway.
\<close>

definition sscanf_timestamp :: "string \<Rightarrow> (int \<times> int \<times> int \<times> int \<times> int \<times> int) option" where
  "sscanf_timestamp str =
     Option.bind (scan_int str) (\<lambda>(year, r1).
     Option.bind (expect_char (CHR ''-'') r1) (\<lambda>r2.
     Option.bind (scan_int r2) (\<lambda>(mon, r3).
     Option.bind (expect_char (CHR ''-'') r3) (\<lambda>r4.
     Option.bind (scan_int r4) (\<lambda>(mday, r5).
     Option.bind (scan_int r5) (\<lambda>(hour, r6).
     Option.bind (expect_char (CHR '':'') r6) (\<lambda>r7.
     Option.bind (scan_int r7) (\<lambda>(minute, r8).
     Option.bind (expect_char (CHR '':'') r8) (\<lambda>r9.
     Option.bind (scan_int r9) (\<lambda>(sec, r10).
       Some (year, mon, mday, hour, minute, sec)))))))))))"

text \<open>
  \<^verbatim>\<open>parse_pg_probackup_timestamp\<close>. \<^verbatim>\<open>mktime\<close> depends on the time zone of the
  process; it is a parameter, applied to the fields of \<^verbatim>\<open>struct tm\<close> (year since 1900,
  month from 0, day, hour, minute, second). The two subtractions are on \<^verbatim>\<open>int\<close>
  and are taken to wrap.
\<close>

type_synonym mktime_fn = "int \<times> int \<times> int \<times> int \<times> int \<times> int \<Rightarrow> int"

definition parse_pg_probackup_timestamp :: "mktime_fn \<Rightarrow> string \<Rightarrow> int" where
  "parse_pg_probackup_timestamp mktime str =
     (case sscanf_timestamp str of
        Some (year, mon, mday, hour, minute, sec) \<Rightarrow>
          mktime (int32 (year - 1900), int32 (mon - 1), mday, hour, minute, sec)
      | None \<Rightarrow> 0)"

text \<open>
  \<^verbatim>\<open>parse_control_line\<close>: the new content of the \<^verbatim>\<open>value\<close> buffer, which is left as
  it is when the line has no equals sign or does not start with the key. A value in
  single quotes is taken up to the closing quote; otherwise trailing line ends and blanks
  are removed, but never the first character.
\<close>

definition strip_trailing :: "string \<Rightarrow> string" where
  "strip_trailing s =
     (case s of
        [] \<Rightarrow> []
      | c # cs \<Rightarrow> c # rev (dropWhile (\<lambda>e. e = CHR 0x0A \<or> e = CHR 0x0D \<or> e = CHR '' '' \<or> e = CHR 0x09)
                                   (rev cs)))"

definition parse_control_line :: "string \<Rightarrow> string \<Rightarrow> string \<Rightarrow> nat \<Rightarrow> string" where
  "parse_control_line line key value value_size =
     (case strchr line (CHR ''='') of
        None \<Rightarrow> value
      | Some equals \<Rightarrow>
          if take (length key) line \<noteq> key then value
          else (let start = dropWhile (\<lambda>c. c = CHR '' '' \<or> c = CHR 0x09) (drop (equals + 1) line);
                    quoted = (case start of [] \<Rightarrow> False | c # _ \<Rightarrow> c = CHR 0x27);
                    start1 = (if quoted then tl start else start)
                in case (if quoted then strchr start1 (CHR 0x27) else None) of
                     Some len \<Rightarrow> take (min len (value_size - 1)) start1
                   | None \<Rightarrow> take (value_size - 1) (strip_trailing start1)))"

text \<open>
  One round of the \<^verbatim>\<open>while (fgets ..)\<close> loop of \<^verbatim>\<open>pg_probackup_read_metadata\<close>: the
  keys are tried in the order of the source; the first one that leaves a nonempty
  \<^verbatim>\<open>value\<close> updates the record, empties the buffer and ends the round.
\<close>

definition control_line_step :: "mktime_fn \<Rightarrow> BackupInfo \<times> string \<Rightarrow> string \<Rightarrow> BackupInfo \<times> string" where
  "control_line_step mktime st line =
     (let info = fst st; value0 = snd st;
          v1 = parse_control_line line ''backup-mode'' value0 256
      in if v1 \<noteq> [] then
           (info\<lparr> backup_type :=
                     (if v1 = ''FULL'' then BACKUP_TYPE_FULL
                      else if v1 = ''PAGE'' then BACKUP_TYPE_PAGE
                      else if v1 = ''DELTA'' then BACKUP_TYPE_DELTA
                      else if v1 = ''PTRACK'' then BACKUP_TYPE_PTRACK
                      else backup_type info) \<rparr>, [])
         else
     (let v2 = parse_control_line line ''status'' v1 256
      in if v2 \<noteq> [] then
           (info\<lparr> status :=
                     (if v2 = ''OK'' then BACKUP_STATUS_OK
                      else if v2 = ''RUNNING'' then BACKUP_STATUS_RUNNING
                      else if v2 = ''CORRUPT'' then BACKUP_STATUS_CORRUPT
                      else if v2 = ''ERROR'' then BACKUP_STATUS_ERROR
                      else if v2 = ''ORPHAN'' then BACKUP_STATUS_ORPHAN
                      else status info) \<rparr>, [])
         else
     (let v3 = parse_control_line line ''backup-id'' v2 256
      in if v3 \<noteq> [] then (info\<lparr> backup_id := take 63 v3 \<rparr>, [])
         else
     (let v4 = parse_control_line line ''start-lsn'' v3 256
      in if v4 \<noteq> [] then
           (case parse_lsn v4 of None \<Rightarrow> info | Some lsn \<Rightarrow> info\<lparr> start_lsn := lsn \<rparr>, [])
         else
     (let v5 = parse_control_line line ''stop-lsn'' v4 256
      in if v5 \<noteq> [] then
           (case parse_lsn v5 of None \<Rightarrow> info | Some lsn \<Rightarrow> info\<lparr> stop_lsn := lsn \<rparr>, [])
         else
     (let v6 = parse_control_line line ''start-time'' v5 256
      in if v6 \<noteq> [] then (info\<lparr> start_time := parse_pg_probackup_timestamp mktime v6 \<rparr>, [])
         else
     (let v7 = parse_control_line line ''end-time'' v6 256
      in if v7 \<noteq> [] then (info\<lparr> end_time := parse_pg_probackup_timestamp mktime v7 \<rparr>, [])
         else
     (let v8a = parse_control_line line ''timelineid'' v7 256;
          v8 = (if v8a = [] then parse_control_line line ''timeline'' v8a 256 else v8a)
      in if v8 \<noteq> [] then (info\<lparr> timeline := of_int (atoi v8) \<rparr>, [])
         else
     (let v9 = parse_control_line line ''parent-backup-id'' v8 256
      in if v9 \<noteq> [] then (info\<lparr> parent_backup_id := take 63 v9 \<rparr>, [])
         else
     (let v10 = parse_control_line line ''data-bytes'' v9 256
      in if v10 \<noteq> [] then (info\<lparr> data_bytes := strtoull10 v10 \<rparr>, [])
         else
     (let v11 = parse_control_line line ''wal-bytes'' v10 256
      in if v11 \<noteq> [] then (info\<lparr> wal_bytes := strtoull10 v11 \<rparr>, [])
         else
     (let v12 = parse_control_line line ''server-version'' v11 256
      in if v12 \<noteq> [] then (info\<lparr> pg_version := of_int (int32 (atoi v12 * 10000)) \<rparr>, [])
         else
     (let v13 = parse_control_line line ''program-version'' v12 256
      in if v13 \<noteq> [] then (info\<lparr> tool_version := take 31 v13 \<rparr>, [])
         else (info, v13))))))))))))))"

datatype Status = STATUS_OK | STATUS_ERROR | STATUS_WARNING

text \<open>
  \<^verbatim>\<open>pg_probackup_read_metadata\<close>: the status code and the record as it is left. The
  \<^verbatim>\<open>value\<close> buffer is an uninitialised local array when the first line is read; its
  initial content is the parameter \<open>value_init\<close>.
\<close>

definition pg_probackup_read_metadata ::
  "filesystem \<Rightarrow> mktime_fn \<Rightarrow> string \<Rightarrow> string \<Rightarrow> BackupInfo \<Rightarrow> Status \<times> BackupInfo" where
  "pg_probackup_read_metadata fs mktime value_init path info =
     (case fs_fopen fs (path_join PATH_MAX path ''backup.control'') of
        None \<Rightarrow> (STATUS_ERROR, info)
      | Some lines \<Rightarrow>
          (let info1 = fst (foldl (control_line_step mktime) (info, value_init) lines)
           in (STATUS_OK, info1\<lparr> tool := BACKUP_TOOL_PG_PROBACKUP,
                                  backup_path := take (PATH_MAX - 1) path \<rparr>)))"

text \<open>
  The instance name: the text between the last slash of the path and the slash before
  it, when the path has one there, and when it has 1 to 63 characters.
\<close>

definition extract_instance_name :: "string \<Rightarrow> BackupInfo \<Rightarrow> BackupInfo" where
  "extract_instance_name path info =
     (case strrchr path (CHR ''/'') of
        None \<Rightarrow> info
      | Some backup_id_pos \<Rightarrow>
          if backup_id_pos = 0 then info
          else (let instance_start =
                      (case strrchr (take backup_id_pos path) (CHR ''/'') of
                         None \<Rightarrow> 0 | Some j \<Rightarrow> j)
                in if path ! instance_start = CHR ''/''
                   then (let len = backup_id_pos - (instance_start + 1)
                         in if 0 < len \<and> len < 64
                            then info\<lparr> instance_name :=
                                         take len (drop (instance_start + 1) path) \<rparr>
                            else info)
                   else info))"

text \<open>
  \<^verbatim>\<open>pg_probackup_scan\<close>, for a successful allocation: \<open>None\<close> is the NULL pointer the
  function returns after it has freed the record.
\<close>

definition pg_probackup_scan ::
  "filesystem \<Rightarrow> mktime_fn \<Rightarrow> string \<Rightarrow> string \<Rightarrow> BackupInfo option" where
  "pg_probackup_scan fs mktime value_init path =
     (case pg_probackup_read_metadata fs mktime value_init path zeroed_backup of
        (STATUS_OK, info) \<Rightarrow>
          (let info1 =
                 (if backup_id info = []
                  then (case strrchr path (CHR ''/'') of
                          None \<Rightarrow> info
                        | Some k \<Rightarrow> info\<lparr> backup_id := take 63 (drop (k + 1) path) \<rparr>)
                  else info)
           in Some (extract_instance_name path info1))
      | _ \<Rightarrow> None)"

section \<open>Adapter registry (adapter_registry.c)\<close>

text \<open>
  \<^verbatim>\<open>detect_backup_type\<close> returns the first adapter of the registry whose detection
  succeeds; the registry lists pg_basebackup, then pg_probackup.
\<close>

datatype BackupAdapter = pg_basebackup_adapter | pg_probackup_adapter

definition detect_backup_type :: "filesystem \<Rightarrow> string \<Rightarrow> BackupAdapter option" where
  "detect_backup_type fs path =
     (if pg_basebackup_detect fs path then Some pg_basebackup_adapter
      else if pg_probackup_detect fs path then Some pg_probackup_adapter
      else None)"

section \<open>Example inputs\<close>

text \<open>A file system with one backup directory, and a complete record that lives there.\<close>

definition example_fs :: filesystem where
  "example_fs =
     \<lparr> fs_stat = (\<lambda>p. if p = ''/backups/b1'' then Some Directory else None),
       fs_readdir = (\<lambda>p. if p = ''/backups/b1'' then Some [] else None),
       fs_fopen = (\<lambda>p. None) \<rparr>"

definition example_backup :: BackupInfo where
  "example_backup =
     zeroed_backup\<lparr> backup_id := ''b1'', backup_path := ''/backups/b1'',
                     start_time := 100, end_time := 200, timeline := 1, pg_version := 160000 \<rparr>"


definition empty_archive :: WALArchiveInfo where
  "empty_archive = \<lparr> archive_path = ''/test/wal/archive'', segment_count = 0, segments = None \<rparr>"

text \<open>
  A pg_probackup backup directory: the control file and the data subdirectory
  \<^verbatim>\<open>database\<close>, which holds a copy of the data directory with its \<^verbatim>\<open>backup_label\<close>.
  As in POSIX path resolution, the data directory is found under its name with or without
  a trailing slash. What opening the control file gives is a parameter: its lines, or a
  failure (the file exists but cannot be read).
\<close>

definition probackup_stat :: "string \<Rightarrow> file_kind option" where
  "probackup_stat p =
     (if p \<in> set [''/backups/main/SB1A2B'', ''/backups/main/SB1A2B/database'',
                   ''/backups/main/SB1A2B/database/'', ''/backups/main/SB1A2B/database/base'',
                   ''/backups/main/SB1A2B/database/global'']
      then Some Directory
      else if p \<in> set [''/backups/main/SB1A2B/backup.control'',
                        ''/backups/main/SB1A2B/database/backup_label'',
                        ''/backups/main/SB1A2B/database/PG_VERSION'']
      then Some Regular_file
      else None)"

definition probackup_readdir :: "string \<Rightarrow> string list option" where
  "probackup_readdir p =
     (if p = ''/backups/main/SB1A2B''
      then Some [''.'', ''..'', ''backup.control'', ''database'']
      else if p = ''/backups/main/SB1A2B/database'' \<or> p = ''/backups/main/SB1A2B/database/''
      then Some [''.'', ''..'', ''PG_VERSION'', ''backup_label'', ''base'', ''global'']
      else None)"

definition probackup_fs :: "string list option \<Rightarrow> filesystem" where
  "probackup_fs control =
     \<lparr> fs_stat = probackup_stat, fs_readdir = probackup_readdir,
       fs_fopen = (\<lambda>p. if p = ''/backups/main/SB1A2B/backup.control'' then control else None) \<rparr>"

section \<open>WAL availability without LSN information\<close>

text \<open>
  Claim C2. For every backup record with \<open>start_lsn = 0\<close> and \<open>stop_lsn = 0\<close> and every
  WAL inventory, \<open>check_wal_availability\<close> returns a result with status WARNING that
  carries exactly one warning, the "no LSN information" warning, and no error.
\<close>

theorem no_lsn_single_warning:
  assumes "start_lsn backup = 0" and "stop_lsn backup = 0"
  shows "\<exists>r. check_wal_availability backup wal_info = Some r
             \<and> result_status r = BACKUP_STATUS_WARNING
             \<and> warning_count r = 1
             \<and> warnings r = [''Backup has no LSN information'']
             \<and> error_count r = 0
             \<and> errors r = []"
  using assms by (simp add: check_wal_availability_def empty_result_def)

theorem no_lsn_single_warning_witness:
  "start_lsn zeroed_backup = 0 \<and> stop_lsn zeroed_backup = 0
   \<and> (\<exists>r. check_wal_availability zeroed_backup
                \<lparr> archive_path = ''/test/wal/archive'', segment_count = 0, segments = None \<rparr> = Some r
            \<and> result_status r = BACKUP_STATUS_WARNING
            \<and> warning_count r = 1
            \<and> warnings r = [''Backup has no LSN information'']
            \<and> error_count r = 0
            \<and> errors r = [])"
proof -
  have z: "start_lsn zeroed_backup = 0" "stop_lsn zeroed_backup = 0"
    by (simp_all add: zeroed_backup_def)
  from no_lsn_single_warning [OF z] z show ?thesis by blast
qed

section \<open>Metadata validation: status and counts\<close>

lemma counts_ok_empty: "counts_ok empty_result"
  by (simp add: counts_ok_def empty_result_def)

lemma counts_ok_error: "counts_ok r \<Longrightarrow> counts_ok (if c then add_error r m else r)"
  by (simp add: counts_ok_def add_error_def)

lemma counts_ok_warning: "counts_ok r \<Longrightarrow> counts_ok (if c then add_warning r m else r)"
  by (simp add: counts_ok_def add_warning_def)

lemma metadata_checks_counts_ok: "counts_ok (metadata_checks fs info)"
  unfolding metadata_checks_def Let_def
  by (intro counts_ok_error counts_ok_warning counts_ok_empty)

lemma validate_status:
  "result_status (validate_backup_metadata fs info) =
     (if error_count (validate_backup_metadata fs info) > 0 then BACKUP_STATUS_ERROR
      else if warning_count (validate_backup_metadata fs info) > 0 then BACKUP_STATUS_WARNING
      else BACKUP_STATUS_OK)"
  by (simp add: validate_backup_metadata_def Let_def)

lemma validate_counts_ok: "counts_ok (validate_backup_metadata fs info)"
  using metadata_checks_counts_ok [of fs info]
  by (simp add: validate_backup_metadata_def Let_def counts_ok_def)

text \<open>
  Claim C10. For every backup record (and every state of the file system), the result of
  \<open>validate_backup_metadata\<close> has status ERROR exactly when its error count is
  positive, status WARNING exactly when the error count is zero and the warning count is
  positive, and status OK exactly when both counts are zero.
\<close>

theorem status_counts_invariant:
  "(result_status (validate_backup_metadata fs info) = BACKUP_STATUS_ERROR
      \<longleftrightarrow> error_count (validate_backup_metadata fs info) > 0)
   \<and> (result_status (validate_backup_metadata fs info) = BACKUP_STATUS_WARNING
      \<longleftrightarrow> error_count (validate_backup_metadata fs info) = 0
          \<and> warning_count (validate_backup_metadata fs info) > 0)
   \<and> (result_status (validate_backup_metadata fs info) = BACKUP_STATUS_OK
      \<longleftrightarrow> error_count (validate_backup_metadata fs info) = 0
          \<and> warning_count (validate_backup_metadata fs info) = 0)"
  using validate_counts_ok [of fs info] by (simp add: validate_status counts_ok_def)

section \<open>Metadata validation: LSN order\<close>

text \<open>
  Claim C6. For every backup record whose metadata is otherwise complete (identifier and
  path present, the path an existing directory, both timestamps present with start before
  end, timeline and version present) and whose nonzero LSNs satisfy
  \<open>stop_lsn < start_lsn\<close>, \<open>validate_backup_metadata\<close> reports exactly one error, and
  that error is the LSN range message, which prints both the start and the stop LSN.
\<close>

theorem lsn_order_single_error:
  assumes "backup_id info \<noteq> []" and "backup_path info \<noteq> []"
    and "is_directory fs (backup_path info)"
    and "0 < start_time info" and "start_time info < end_time info"
    and "timeline info \<noteq> 0" and "pg_version info \<noteq> 0"
    and "start_lsn info \<noteq> 0" and "stop_lsn info \<noteq> 0"
    and "stop_lsn info < start_lsn info"
  shows "error_count (validate_backup_metadata fs info) = 1
         \<and> errors (validate_backup_metadata fs info)
             = [''Invalid LSN range: start_lsn ('' @ fmt_u (unat (start_lsn info))
                  @ '') >= stop_lsn ('' @ fmt_u (unat (stop_lsn info)) @ '')'']
         \<and> warning_count (validate_backup_metadata fs info) = 0
         \<and> warnings (validate_backup_metadata fs info) = []
         \<and> result_status (validate_backup_metadata fs info) = BACKUP_STATUS_ERROR"
proof -
  have lsn: "0 < start_lsn info" "0 < stop_lsn info" "stop_lsn info \<le> start_lsn info"
    using assms(8,9,10) by (simp_all add: word_greater_zero_iff)
  have "metadata_checks fs info
          = add_error empty_result (lsn_range_msg (start_lsn info) (stop_lsn info))"
    using assms(1-7) lsn by (simp add: metadata_checks_def)
  then show ?thesis
    by (simp add: validate_backup_metadata_def add_error_def empty_result_def lsn_range_msg_def)
qed

theorem lsn_order_single_error_witness:
  "errors (validate_backup_metadata example_fs
             (example_backup\<lparr> start_lsn := 0x2000000, stop_lsn := 0x1000000 \<rparr>))
     = [''Invalid LSN range: start_lsn (33554432) >= stop_lsn (16777216)'']
   \<and> error_count (validate_backup_metadata example_fs
             (example_backup\<lparr> start_lsn := 0x2000000, stop_lsn := 0x1000000 \<rparr>)) = 1
   \<and> result_status (validate_backup_metadata example_fs
             (example_backup\<lparr> start_lsn := 0x2000000, stop_lsn := 0x1000000 \<rparr>))
       = BACKUP_STATUS_ERROR"
proof -
  let ?b = "example_backup\<lparr> start_lsn := 0x2000000, stop_lsn := 0x1000000 \<rparr>"
  have h: "backup_id ?b \<noteq> []" "backup_path ?b \<noteq> []" "is_directory example_fs (backup_path ?b)"
    "0 < start_time ?b" "start_time ?b < end_time ?b" "timeline ?b \<noteq> 0" "pg_version ?b \<noteq> 0"
    "start_lsn ?b \<noteq> 0" "stop_lsn ?b \<noteq> 0" "stop_lsn ?b < start_lsn ?b"
    by (simp_all add: example_backup_def zeroed_backup_def example_fs_def is_directory_def)
  have u: "fmt_u 33554432 = ''33554432''" "fmt_u 16777216 = ''16777216''"
    by (simp_all add: fmt_u.simps dec_char_def)
  from lsn_order_single_error [OF h] u show ?thesis
    by simp
qed

section \<open>Segment arithmetic\<close>

lemma unat32_bound: "unat (x :: 32 word) < 4294967296"
  using unsigned_less [of x, where 'a = nat] by simp

lemma seg_lex_le:
  "(log_id c < log_id s \<or> (log_id c = log_id s \<and> seg_id c \<le> seg_id s))
     \<longleftrightarrow> seg_number c \<le> seg_number s"
proof -
  have e: "(log_id c = log_id s) = (unat (log_id c) = unat (log_id s))"
    by (simp add: word_unat_eq_iff)
  show ?thesis
    using unat32_bound [of "seg_id c"] unat32_bound [of "seg_id s"]
    unfolding seg_number_def word_less_nat_alt word_le_nat_alt e
    by auto
qed

lemma seg_of_number_seg_number: "seg_of_number (seg_timeline c) (seg_number c) = c"
  using unat32_bound [of "seg_id c"]
  by (simp add: seg_of_number_def seg_number_def)

lemma unat32_succ:
  fixes x :: "32 word"
  shows "unat (x + 1) = (if unat x = 4294967295 then 0 else unat x + 1)"
  using unat32_bound [of x] by (simp add: unat_word_ariths)

lemma word32_succ_zero:
  fixes x :: "32 word"
  shows "x + 1 = 0 \<longleftrightarrow> unat x = 4294967295"
proof -
  have "x + 1 = 0 \<longleftrightarrow> unat (x + 1) = 0"
    by (simp add: unat_0_iff)
  then show ?thesis
    by (simp add: unat32_succ)
qed


lemma next_segment_timeline [simp]: "seg_timeline (next_segment c) = seg_timeline c"
  by (simp add: next_segment_def Let_def)

lemma next_segment_number:
  assumes "seg_number c \<le> seg_number s" and "unat (log_id s) < 4294967295"
  shows "seg_number (next_segment c) = Suc (seg_number c)"
proof (cases "unat (seg_id c) = 4294967295")
  case True
  with assms unat32_bound [of "seg_id s"] have "unat (log_id c) < 4294967295"
    by (simp add: seg_number_def)
  with True show ?thesis
    by (simp add: next_segment_def Let_def seg_number_def word32_succ_zero unat32_succ)
next
  case False
  then show ?thesis
    by (simp add: next_segment_def Let_def seg_number_def word32_succ_zero unat32_succ)
qed

lemma next_segment_no_abort:
  assumes "seg_number c \<le> seg_number s" and "unat (log_id s) < 4294967295"
  shows "\<not> log_id (next_segment c) > log_id s + 1"
proof -
  from assms unat32_bound [of "seg_id c"] unat32_bound [of "seg_id s"]
  have le: "unat (log_id c) \<le> unat (log_id s)"
    by (simp add: seg_number_def)
  have "unat (log_id (next_segment c)) \<le> unat (log_id c) + 1"
    by (simp add: next_segment_def Let_def unat32_succ)
  moreover have "unat (log_id s + 1) = unat (log_id s) + 1"
    using assms(2) by (simp add: unat32_succ)
  ultimately show ?thesis
    using le by (simp add: word_less_nat_alt)
qed

lemma segment_exists_iff:
  "segment_exists_in_archive seg wal_info \<longleftrightarrow> seg \<in> inventory_segments wal_info"
proof -
  have "(seg_timeline a = seg_timeline seg \<and> log_id a = log_id seg \<and> seg_id a = seg_id seg)
          \<longleftrightarrow> a = seg" for a
    by auto
  then show ?thesis
    by (auto simp add: segment_exists_in_archive_def inventory_segments_def list_ex_iff
          split: option.splits)
qed

lemma wal_range_loop_result:
  assumes "unat (log_id s) < 4294967295"
    and "error_count r \<le> INT_MAX" and "k \<le> INT_MAX"
  shows "wal_range_loop s w c r k =
           Some (let absent = filter (\<lambda>x. x \<notin> inventory_segments w)
                                (map (seg_of_number (seg_timeline c))
                                     [seg_number c ..< Suc (seg_number s)])
                 in if error_count r + int (length absent) \<le> INT_MAX
                       \<and> k + int (length absent) \<le> INT_MAX
                    then Loop_done
                           (r\<lparr> error_count := error_count r + int (length absent),
                                errors := errors r @ map missing_segment_msg absent \<rparr>)
                           (k + int (length absent))
                    else Int_overflow)"
  using assms(2,3)
proof (induction "Suc (seg_number s) - seg_number c" arbitrary: c r k)
  case 0
  then have gt: "\<not> seg_number c \<le> seg_number s" by simp
  then have e: "[seg_number c ..< Suc (seg_number s)] = []" by simp
  show ?case
    using "0.prems"
    by (subst wal_range_loop.simps) (simp add: seg_lex_le gt e del: upt_Suc)
next
  case (Suc d)
  then have le: "seg_number c \<le> seg_number s" by simp
  have n: "seg_number (next_segment c) = Suc (seg_number c)"
    by (rule next_segment_number [OF le assms(1)])
  have na: "\<not> log_id (next_segment c) > log_id s + 1"
    by (rule next_segment_no_abort [OF le assms(1)])
  have d: "d = Suc (seg_number s) - seg_number (next_segment c)"
    using Suc.hyps(2) n by simp
  have u: "[seg_number c ..< Suc (seg_number s)]
             = seg_number c # [Suc (seg_number c) ..< Suc (seg_number s)]"
    using le by (simp add: upt_conv_Cons)
  show ?case
  proof (cases "c \<in> inventory_segments w")
    case True
    note ih = Suc.hyps(1) [OF d Suc.prems]
    show ?thesis
      by (subst wal_range_loop.simps)
         (simp add: seg_lex_le le na ih n u seg_of_number_seg_number segment_exists_iff True
            Let_def del: upt_Suc)
  next
    case False
    show ?thesis
    proof (cases "k = INT_MAX \<or> error_count r = INT_MAX")
      case True
      then show ?thesis
        by (subst wal_range_loop.simps)
           (auto simp add: seg_lex_le le u seg_of_number_seg_number segment_exists_iff False
              Let_def simp del: upt_Suc)
    next
      case nm: False
      with Suc.prems have p: "error_count r + 1 \<le> INT_MAX" "k + 1 \<le> INT_MAX"
        by simp_all
      have ih: "wal_range_loop s w (next_segment c)
                  (r\<lparr> error_count := error_count r + 1,
                       errors := errors r @ [missing_segment_msg c] \<rparr>) (k + 1)
                = Some (let absent = filter (\<lambda>x. x \<notin> inventory_segments w)
                                       (map (seg_of_number (seg_timeline (next_segment c)))
                                            [seg_number (next_segment c) ..< Suc (seg_number s)])
                        in if error_count (r\<lparr> error_count := error_count r + 1,
                                    errors := errors r @ [missing_segment_msg c] \<rparr>)
                                + int (length absent) \<le> INT_MAX
                              \<and> k + 1 + int (length absent) \<le> INT_MAX
                           then Loop_done
                                  ((r\<lparr> error_count := error_count r + 1,
                                        errors := errors r @ [missing_segment_msg c] \<rparr>)
                                     \<lparr> error_count :=
                                          error_count (r\<lparr> error_count := error_count r + 1,
                                             errors := errors r @ [missing_segment_msg c] \<rparr>)
                                          + int (length absent),
                                       errors :=
                                          errors (r\<lparr> error_count := error_count r + 1,
                                             errors := errors r @ [missing_segment_msg c] \<rparr>)
                                          @ map missing_segment_msg absent \<rparr>)
                                  (k + 1 + int (length absent))
                           else Int_overflow)"
        using p by (intro Suc.hyps(1) [OF d]) simp_all
      show ?thesis
        using nm
        by (subst wal_range_loop.simps)
           (simp add: seg_lex_le le na ih n u seg_of_number_seg_number segment_exists_iff False
              Let_def add.assoc del: upt_Suc)
    qed
  qed
qed


lemma lsn_to_seg_timeline [simp]: "seg_timeline (lsn_to_seg lsn tli sz) = tli"
  by (simp add: lsn_to_seg_def Let_def)

lemma unat64_bound: "unat (x :: 64 word) < 18446744073709551616"
  using unsigned_less [of x, where 'a = nat] by simp

lemma lsn_to_seg_log_id:
  "unat (log_id (lsn_to_seg lsn tli 0x1000000)) = unat lsn div 2 ^ 24 div 2 ^ 32"
proof -
  have "unat lsn div 2 ^ 24 div 2 ^ 32 < 256"
    using unat64_bound [of lsn] by simp
  then show ?thesis
    by (simp add: lsn_to_seg_def Let_def unat_div unsigned_ucast_eq take_bit_eq_mod)
qed

lemma lsn_to_seg_seg_id:
  "unat (seg_id (lsn_to_seg lsn tli 0x1000000)) = unat lsn div 2 ^ 24 mod 2 ^ 32"
  by (simp add: lsn_to_seg_def Let_def unat_div unat_mod unsigned_ucast_eq take_bit_eq_mod)

lemma lsn_to_seg_number:
  "seg_number (lsn_to_seg lsn tli 0x1000000) = unat lsn div 2 ^ 24"
  unfolding seg_number_def lsn_to_seg_log_id lsn_to_seg_seg_id
  by simp

lemma lsn_to_seg_log_bound:
  "unat (log_id (lsn_to_seg lsn tli 0x1000000)) < 4294967295"
proof -
  have "unat lsn div 2 ^ 24 div 2 ^ 32 < 256"
    using unat64_bound [of lsn] by simp
  then show ?thesis
    unfolding lsn_to_seg_log_id by simp
qed

lemma range_loop_from_lsns:
  "wal_range_loop (lsn_to_seg (stop_lsn b) (timeline b) 0x1000000) w
       (lsn_to_seg (start_lsn b) (timeline b) 0x1000000) empty_result 0
     = Some (if int (length (missing_segments b w)) \<le> INT_MAX
             then Loop_done
                    (empty_result\<lparr> error_count := int (length (missing_segments b w)),
                        errors := map missing_segment_msg (missing_segments b w) \<rparr>)
                    (int (length (missing_segments b w)))
             else Int_overflow)"
proof -
  have z: "error_count empty_result \<le> INT_MAX" "0 \<le> INT_MAX"
    by (simp_all add: empty_result_def INT_MAX_def)
  have e: "error_count empty_result = 0" "errors empty_result = []"
    by (simp_all add: empty_result_def)
  show ?thesis
    by (simp add: wal_range_loop_result [OF lsn_to_seg_log_bound z] lsn_to_seg_number
          missing_segments_def expected_segments_def e Let_def del: upt_Suc)
qed

lemma check_wal_availability_result:
  assumes "\<not> (start_lsn b = 0 \<and> stop_lsn b = 0)"
  shows "check_wal_availability b w =
           (if int (length (missing_segments b w)) \<le> INT_MAX
            then Some \<lparr> result_status = (if missing_segments b w = [] then BACKUP_STATUS_OK
                                          else BACKUP_STATUS_ERROR),
                         error_count = int (length (missing_segments b w)),
                         warning_count = 0,
                         errors = map missing_segment_msg (missing_segments b w),
                         warnings = [] \<rparr>
            else None)"
  using assms
  unfolding check_wal_availability_def Let_def range_loop_from_lsns
  by (simp add: empty_result_def)



lemma missing_msg_not_abort: "too_many_segments_msg \<noteq> missing_segment_msg s"
  by (simp add: missing_segment_msg_def too_many_segments_msg_def)

section \<open>Hexadecimal formatting\<close>

lemma hex_table_all: "list_all isxdigit ''0123456789ABCDEF''"
  by (simp add: isxdigit_def)

lemma isxdigit_hex_char_upper: "d < 16 \<Longrightarrow> isxdigit (hex_char_upper d)"
  using hex_table_all unfolding hex_char_upper_def list_all_length by simp

lemma hexdigit_val_table:
  "map (\<lambda>d. hexdigit_val (hex_char_upper d)) [0..<16] = [0..<16]"
  by (simp add: upt_rec hex_char_upper_def hexdigit_val_def)

lemma hexdigit_val_hex_char_upper: "d < 16 \<Longrightarrow> hexdigit_val (hex_char_upper d) = d"
proof -
  assume d: "d < 16"
  then have "hexdigit_val (hex_char_upper d)
               = map (\<lambda>d. hexdigit_val (hex_char_upper d)) [0..<16] ! d"
    by (simp del: upt_Suc)
  also have "\<dots> = [0..<16] ! d"
    by (simp only: hexdigit_val_table)
  also have "\<dots> = d"
    using d by (simp del: upt_Suc)
  finally show ?thesis .
qed

lemma hexval_Nil [simp]: "hexval [] = 0"
  by (simp add: hexval_def)

lemma hexval_snoc [simp]: "hexval (ds @ [c]) = 16 * hexval ds + hexdigit_val c"
  by (simp add: hexval_def)

lemma fmt_X_nonempty [simp]: "fmt_X n \<noteq> []"
  by (subst fmt_X.simps) simp

lemma fmt_X_hex: "list_all isxdigit (fmt_X n)"
proof (induction n rule: fmt_X.induct)
  case (1 n)
  show ?case
  proof (cases "n < 16")
    case True
    then show ?thesis
      by (subst fmt_X.simps) (simp add: isxdigit_hex_char_upper)
  next
    case False
    with "1" show ?thesis
      by (subst fmt_X.simps) (simp add: isxdigit_hex_char_upper)
  qed
qed

lemma hexval_fmt_X: "hexval (fmt_X n) = n"
proof (induction n rule: fmt_X.induct)
  case (1 n)
  show ?case
  proof (cases "n < 16")
    case True
    then have "fmt_X n = [] @ [hex_char_upper n]"
      by (subst fmt_X.simps) simp
    with True show ?thesis
      by (simp only: hexval_snoc) (simp add: hexdigit_val_hex_char_upper)
  next
    case False
    with "1" show ?thesis
      by (subst fmt_X.simps) (simp add: hexdigit_val_hex_char_upper)
  qed
qed

lemma fmt_X_length: "0 < k \<Longrightarrow> n < 16 ^ k \<Longrightarrow> length (fmt_X n) \<le> k"
proof (induction k arbitrary: n)
  case 0
  then show ?case by simp
next
  case (Suc k)
  show ?case
  proof (cases "n < 16")
    case True
    then show ?thesis
      by (subst fmt_X.simps) simp
  next
    case False
    with Suc.prems have k: "0 < k"
      by (cases k) simp_all
    from Suc.prems have "n div 16 < 16 ^ k"
      by (simp add: less_mult_imp_div_less mult.commute)
    from Suc.IH [OF k this] False show ?thesis
      by (subst fmt_X.simps) simp
  qed
qed










section \<open>What strtoul reads\<close>

lemma isxdigit_not_space: "isxdigit c \<Longrightarrow> \<not> isspace c"
  by (auto simp: isxdigit_def isspace_def Let_def)

lemma isxdigit_not_sign: "isxdigit c \<Longrightarrow> c \<noteq> CHR ''-'' \<and> c \<noteq> CHR ''+''"
  by (auto simp: isxdigit_def)

lemma isxdigit_not_x: "isxdigit c \<Longrightarrow> c \<noteq> CHR ''x'' \<and> c \<noteq> CHR ''X''"
  by (auto simp: isxdigit_def)

lemma isxdigit_not_slash: "\<not> isxdigit (CHR ''/'')"
  by (simp add: isxdigit_def)

lemma takeWhile_hex_stop:
  "list_all isxdigit ds \<Longrightarrow> hex_stop t \<Longrightarrow> takeWhile isxdigit (ds @ t) = ds"
  by (cases t) (auto simp: hex_stop_def list_all_iff)

lemma no_prefix:
  assumes "list_all isxdigit ds" and "hex_stop t"
  shows "(case ds @ t of
            a # b # c # _ \<Rightarrow>
              if a = CHR ''0'' \<and> (b = CHR ''x'' \<or> b = CHR ''X'') \<and> isxdigit c then 2 else 0
          | _ \<Rightarrow> (0::nat)) = 0"
proof (cases ds)
  case Nil
  with assms(2) show ?thesis
    by (auto simp: hex_stop_def isxdigit_def split: list.splits)
next
  case (Cons d ds')
  show ?thesis
  proof (cases ds')
    case Nil
    with Cons assms(2) show ?thesis
      by (auto simp: hex_stop_def split: list.splits)
  next
    case (Cons e ds'')
    with \<open>ds = d # ds'\<close> assms(1) have "isxdigit e" by simp
    then have "e \<noteq> CHR ''x'' \<and> e \<noteq> CHR ''X''"
      by (rule isxdigit_not_x)
    with Cons \<open>ds = d # ds'\<close> show ?thesis
      by (auto split: list.splits)
  qed
qed

lemma strtoul16_hex:
  assumes "ds \<noteq> []" and "list_all isxdigit ds" and "hex_stop t"
  shows "strtoul16 (ds @ t)
           = (if 2 ^ 64 \<le> hexval ds then - 1 else of_nat (hexval ds), length ds)"
proof -
  from assms(1) obtain d ds' where ds: "ds = d # ds'"
    by (cases ds) auto
  with assms(2) have d: "isxdigit d" by simp
  have ws: "takeWhile isspace (ds @ t) = []"
    using d ds by (simp add: isxdigit_not_space)
  have sg: "d \<noteq> CHR ''-''" "d \<noteq> CHR ''+''"
    using isxdigit_not_sign [OF d] by simp_all
  have s1: "(case ds @ t of [] \<Rightarrow> False | c # _ \<Rightarrow> c = CHR ''-'') = False"
       "(case ds @ t of [] \<Rightarrow> 0 | c # _ \<Rightarrow> if c = CHR ''-'' \<or> c = CHR ''+'' then 1 else 0) = (0::nat)"
    using sg ds by simp_all
  note px = no_prefix [OF assms(2,3)]
  note tw = takeWhile_hex_stop [OF assms(2,3)]
  show ?thesis
    unfolding strtoul16_def Let_def ws
    by (simp only: list.size drop_0 s1 px tw) (simp add: assms(1))
qed

lemma hexdigit_val_bound: "isxdigit c \<Longrightarrow> hexdigit_val c < 16"
  by (auto simp: isxdigit_def hexdigit_val_def Let_def)

lemma hexval_bound: "list_all isxdigit ds \<Longrightarrow> hexval ds < 16 ^ length ds"
proof (induction ds rule: rev_induct)
  case Nil
  then show ?case by simp
next
  case (snoc c ds)
  then have "hexval ds < 16 ^ length ds" and "hexdigit_val c < 16"
    by (simp_all add: hexdigit_val_bound)
  then have "16 * hexval ds + hexdigit_val c < 16 * 16 ^ length ds"
    by simp
  then show ?case by simp
qed

lemma ucast_of_nat_64_32: "(ucast (of_nat n :: 64 word) :: 32 word) = of_nat n"
  by (rule unsigned_word_eqI [where 'a = nat])
     (simp add: unsigned_ucast_eq unsigned_of_nat)

lemma strtoul16_field:
  assumes "length ds = 8" and "list_all isxdigit ds"
  shows "strtoul16 ds = (of_nat (hexval ds), 8)"
proof -
  from assms(1) have ne: "ds \<noteq> []" by auto
  have "hexval ds < 16 ^ 8"
    using hexval_bound [OF assms(2)] assms(1) by simp
  then have "\<not> 2 ^ 64 \<le> hexval ds" by simp
  with strtoul16_hex [OF ne assms(2), of "[]"] assms(1) show ?thesis
    by (simp add: hex_stop_def)
qed

lemma hex_no_slash: "list_all isxdigit u \<Longrightarrow> CHR ''/'' \<notin> set u"
  using isxdigit_not_slash by (auto simp: list_all_iff)

lemma strchr_hex_prefix:
  "list_all isxdigit u \<Longrightarrow> strchr (u @ CHR ''/'' # l) (CHR ''/'') = Some (length u)"
proof -
  assume "list_all isxdigit u"
  then have "\<forall>x\<in>set u. x \<noteq> CHR ''/''"
    using hex_no_slash by blast
  then have "takeWhile (\<lambda>x. x \<noteq> CHR ''/'') (u @ CHR ''/'' # l) = u"
    by simp
  then show ?thesis
    by (simp add: strchr_def)
qed

lemma hex_stop_slash: "hex_stop (CHR ''/'' # l)"
  by (simp add: hex_stop_def isxdigit_def)

lemma parse_lsn_hex_tail:
  assumes "u \<noteq> []" and "list_all isxdigit u" and "l \<noteq> []" and "list_all isxdigit l"
    and "hex_stop t"
  shows "parse_lsn (u @ CHR ''/'' # l @ t)
           = (if t = [] then Some (push_bit 32 (strtoul_value (hexval u)) OR strtoul_value (hexval l))
              else None)"
proof -
  have up: "strtoul16 (u @ CHR ''/'' # l @ t) = (strtoul_value (hexval u), length u)"
    using strtoul16_hex [OF assms(1,2) hex_stop_slash, of "l @ t"]
    by (simp add: strtoul_value_def)
  have lo: "strtoul16 (l @ t) = (strtoul_value (hexval l), length l)"
    using strtoul16_hex [OF assms(3,4,5)]
    by (simp add: strtoul_value_def)
  show ?thesis
    using assms(3)
    by (simp add: parse_lsn_def strchr_hex_prefix [OF assms(2)] up lo)
qed

lemma parse_lsn_hex:
  assumes "u \<noteq> []" and "list_all isxdigit u" and "l \<noteq> []" and "list_all isxdigit l"
  shows "parse_lsn (u @ CHR ''/'' # l)
           = Some (push_bit 32 (strtoul_value (hexval u)) OR strtoul_value (hexval l))"
  using parse_lsn_hex_tail [OF assms, of "[]"] by (simp add: hex_stop_def)

lemma lsn_upper_half:
  fixes a b :: "64 word"
  assumes "unat b < 2 ^ 32"
  shows "(ucast (drop_bit 32 (push_bit 32 a OR b)) :: 32 word) = ucast a"
proof -
  have "drop_bit 32 b = 0"
    using assms by (simp add: drop_bit_eq_div word_arith_nat_div)
  then show ?thesis
    by (simp add: bit_eq_iff bit_simps)
qed

lemma lsn_lower_half:
  fixes a b :: "64 word"
  shows "(ucast (push_bit 32 a OR b) :: 32 word) = ucast b"
  by (simp add: bit_eq_iff bit_simps)

lemma unat_of_nat_32: "n < 2 ^ 32 \<Longrightarrow> unat (of_nat n :: 32 word) = n"
  by (simp add: unat_of_nat)

lemma unat_of_nat_64: "n < 2 ^ 64 \<Longrightarrow> unat (of_nat n :: 64 word) = n"
  by (simp add: unat_of_nat)

lemma lsn_halves:
  assumes "hu < 2 ^ 32" and "hl < 2 ^ 32"
  shows "(ucast (drop_bit 32 (push_bit 32 (strtoul_value hu) OR strtoul_value hl)) :: 32 word)
           = of_nat hu"
    and "(ucast (push_bit 32 (strtoul_value hu) OR strtoul_value hl) :: 32 word) = of_nat hl"
proof -
  have v: "strtoul_value hu = of_nat hu" "strtoul_value hl = of_nat hl"
    using assms by (simp_all add: strtoul_value_def)
  have "unat (of_nat hl :: 64 word) < 2 ^ 32"
    using assms(2) by (simp add: unat_of_nat_64)
  then show "(ucast (drop_bit 32 (push_bit 32 (strtoul_value hu) OR strtoul_value hl)) :: 32 word)
           = of_nat hu"
    unfolding v by (simp only: lsn_upper_half ucast_of_nat_64_32)
  show "(ucast (push_bit 32 (strtoul_value hu) OR strtoul_value hl) :: 32 word) = of_nat hl"
    unfolding v by (simp only: lsn_lower_half ucast_of_nat_64_32)
qed


section \<open>WAL segment file names\<close>

text \<open>
  Claim C9. For every input string, \<open>parse_wal_filename\<close> succeeds exactly when the
  string consists of exactly 24 hexadecimal characters; the result then holds the values
  of the three 8-character fields (timeline, log id, segment id). Every other string
  yields "no match" (\<open>None\<close>); the function is total, there is no other outcome.
\<close>

theorem parse_wal_filename_exact:
  "parse_wal_filename name =
     (if length name = 24 \<and> list_all isxdigit name
      then Some \<lparr> seg_timeline = of_nat (hexval (take 8 name)),
                  log_id = of_nat (hexval (take 8 (drop 8 name))),
                  seg_id = of_nat (hexval (drop 16 name)) \<rparr>
      else None)"
proof (cases "length name = 24 \<and> list_all isxdigit name")
  case True
  then have len: "length name = 24" and hex: "list_all isxdigit name"
    by simp_all
  from hex have h: "list_all isxdigit (take 8 name)" "list_all isxdigit (take 8 (drop 8 name))"
      "list_all isxdigit (take 8 (drop 16 name))"
    by (auto simp: list_all_iff dest: in_set_takeD in_set_dropD)
  from len have l: "length (take 8 name) = 8" "length (take 8 (drop 8 name)) = 8"
      "length (take 8 (drop 16 name)) = 8"
    by simp_all
  from len have d: "take 8 (drop 16 name) = drop 16 name"
    by simp
  show ?thesis
    using len hex
    by (simp add: parse_wal_filename_def is_hex_string_def Let_def
          strtoul16_field [OF l(1) h(1)] strtoul16_field [OF l(2) h(2)]
          strtoul16_field [OF l(3) h(3), unfolded d] ucast_of_nat_64_32)
next
  case False
  then show ?thesis
    by (auto simp: parse_wal_filename_def is_hex_string_def)
qed



section \<open>WAL availability: the missing segments\<close>




section \<open>WAL availability: termination of the enumeration\<close>

text \<open>
  For every backup record and every WAL inventory the enumeration in
  \<open>check_wal_availability\<close> ends: the loop has an outcome. A result that is returned
  has at most one error for each expected segment. The "too many segments" bound never
  stops the loop: inside the loop the log id of the current segment is at most that of
  the stop segment, so after the increment it is at most one more, the test
  \<^verbatim>\<open>log_id > stop_seg.log_id + 1\<close> is false, and no result carries the "too many
  segments" error.
\<close>

lemma abort_message_never_reported:
  "(\<exists>outcome. wal_range_loop (lsn_to_seg (stop_lsn backup) (timeline backup) 0x1000000)
                  wal_info (lsn_to_seg (start_lsn backup) (timeline backup) 0x1000000)
                  empty_result 0 = Some outcome)
   \<and> (\<forall>r. check_wal_availability backup wal_info = Some r \<longrightarrow>
            error_count r \<le> int (length (expected_segments backup))
            \<and> too_many_segments_msg \<notin> set (errors r))"
proof -
  have a: "\<exists>outcome. wal_range_loop (lsn_to_seg (stop_lsn backup) (timeline backup) 0x1000000)
                  wal_info (lsn_to_seg (start_lsn backup) (timeline backup) 0x1000000)
                  empty_result 0 = Some outcome"
    by (simp add: range_loop_from_lsns)
  have b: "error_count r \<le> int (length (expected_segments backup))
           \<and> too_many_segments_msg \<notin> set (errors r)"
    if r: "check_wal_availability backup wal_info = Some r" for r
  proof (cases "start_lsn backup = 0 \<and> stop_lsn backup = 0")
    case True
    with r show ?thesis
      by (auto simp add: check_wal_availability_def empty_result_def)
  next
    case False
    have "length (missing_segments backup wal_info) \<le> length (expected_segments backup)"
      by (simp add: missing_segments_def)
    moreover have "too_many_segments_msg
                     \<notin> set (map missing_segment_msg (missing_segments backup wal_info))"
      using missing_msg_not_abort by auto
    ultimately show ?thesis
      using r unfolding check_wal_availability_result [OF False]
      by (auto split: if_splits)
  qed
  from a b show ?thesis
    by blast
qed

text \<open>
  Claim C7 says that the enumeration always terminates and that, whenever the expected
  range exceeds one more log than the log of the stop segment, a hard iteration bound
  stops it and appends a terminal "too many segments" error. The code at a backup whose
  start segment (log 2) lies more than one log beyond its stop segment (log 0): the loop
  body is never entered, and the result is OK without any error.
\<close>

theorem too_many_segments_not_reported:
  "log_id (lsn_to_seg 0x0200000000000000 1 0x1000000)
     > log_id (lsn_to_seg 0x1000000 1 0x1000000) + 1
   \<and> check_wal_availability
         (example_backup\<lparr> start_lsn := 0x0200000000000000, stop_lsn := 0x1000000 \<rparr>)
         empty_archive
       = Some \<lparr> result_status = BACKUP_STATUS_OK, error_count = 0, warning_count = 0,
                 errors = [], warnings = [] \<rparr>"
proof -
  let ?b = "example_backup\<lparr> start_lsn := 0x0200000000000000, stop_lsn := 0x1000000 \<rparr>"
  have m: "missing_segments ?b empty_archive = []"
    by (simp add: missing_segments_def expected_segments_def)
  have l: "log_id (lsn_to_seg 0x0200000000000000 1 0x1000000)
             > log_id (lsn_to_seg 0x1000000 1 0x1000000) + 1"
    by (simp add: lsn_to_seg_def Let_def)
  have "\<not> (start_lsn ?b = 0 \<and> stop_lsn ?b = 0)"
    by simp
  from check_wal_availability_result [OF this, of empty_archive] l show ?thesis
    by (simp add: m INT_MAX_def)
qed

section \<open>Parsing LSNs\<close>

text \<open>
  Without a slash \<open>parse_lsn\<close> fails. On two nonempty runs of hexadecimal digits
  around one slash it succeeds (lemma \<open>parse_lsn_hex\<close>), and text after the lower
  half makes it fail when that text cannot be read on as part of the number (lemma
  \<open>parse_lsn_hex_tail\<close>).
\<close>

lemma parse_lsn_without_slash: "CHR ''/'' \<notin> set s \<Longrightarrow> parse_lsn s = None"
  by (simp add: parse_lsn_def strchr_def)

text \<open>
  Claim C3 says that \<open>parse_lsn\<close> succeeds exactly on the inputs HEX/HEX (in either
  case, no leading \<^verbatim>\<open>0x\<close>), that it fails whenever a half contains a character that is
  not a hexadecimal digit, and that on success the value has the pre-slash half as its
  upper 32 bits and the post-slash half as its lower 32 bits. The code at
  \<^verbatim>\<open>"0x1/0x2"\<close>: both halves hold the character \<^verbatim>\<open>x\<close>, which is not a hexadecimal
  digit, and the input is accepted, with the value \<^verbatim>\<open>0x100000002\<close>. The code at
  \<^verbatim>\<open>"0/100000000"\<close>: the lower half does not fit in 32 bits, the input is accepted, and
  the upper 32 bits of the value are 1, not the pre-slash half 0.
\<close>

theorem parse_lsn_accepts_prefix_and_wide_half:
  "\<not> list_all isxdigit ''0x1'' \<and> \<not> list_all isxdigit ''0x2''
   \<and> parse_lsn ''0x1/0x2'' = Some 0x100000002
   \<and> list_all isxdigit ''0'' \<and> list_all isxdigit ''100000000''
   \<and> parse_lsn ''0/100000000'' = Some 0x100000000
   \<and> (ucast (drop_bit 32 (0x100000000 :: 64 word)) :: 32 word) = 1
   \<and> hexval ''0'' = 0"
proof (intro conjI)
  show "\<not> list_all isxdigit ''0x1''" "\<not> list_all isxdigit ''0x2''"
    by (simp_all add: isxdigit_def)
  show "parse_lsn ''0x1/0x2'' = Some 0x100000002"
    by (simp add: parse_lsn_def strchr_def strtoul16_def isspace_def isxdigit_def
          hexval_def hexdigit_val_def)
  show "list_all isxdigit ''0''" "list_all isxdigit ''100000000''"
    by (simp_all add: isxdigit_def)
  show "parse_lsn ''0/100000000'' = Some 0x100000000"
    by (simp add: parse_lsn_def strchr_def strtoul16_def isspace_def isxdigit_def
          hexval_def hexdigit_val_def)
  show "(ucast (drop_bit 32 (0x100000000 :: 64 word)) :: 32 word) = 1"
    by simp
  show "hexval ''0'' = 0"
    by (simp add: hexval_def hexdigit_val_def)
qed

section \<open>Formatting LSNs\<close>

lemma format_lsn_halves:
  assumes "hu < 2 ^ 32" and "hl < 2 ^ 32" and "18 \<le> bufsize"
  shows "format_lsn (push_bit 32 (strtoul_value hu) OR strtoul_value hl) bufsize
           = fmt_X hu @ ''/'' @ fmt_X hl"
proof -
  have "hu < 16 ^ 8" "hl < 16 ^ 8"
    using assms by simp_all
  then have "length (fmt_X hu) \<le> 8" "length (fmt_X hl) \<le> 8"
    by (simp_all add: fmt_X_length)
  then have "length (fmt_X hu @ ''/'' @ fmt_X hl) \<le> bufsize - 1"
    using assms(3) by simp
  then show ?thesis
    unfolding format_lsn_def snprintf_buf_def lsn_halves [OF assms(1,2)]
    using assms(1,2) by (simp add: unat_of_nat_32)
qed

text \<open>
  Claim C8. For every string HEX/HEX whose halves are nonempty runs of hexadecimal digits
  with values that fit in 32 bits, \<open>parse_lsn\<close> succeeds, and \<open>format_lsn\<close> of the
  result (into a buffer that holds it) is the same pair of halves in the normal form of
  \<^verbatim>\<open>%X\<close>, upper case without leading zeros; parsing that text gives the same LSN again.
\<close>

theorem format_parse_roundtrip:
  assumes "u \<noteq> []" and "list_all isxdigit u" and "l \<noteq> []" and "list_all isxdigit l"
    and "hexval u < 2 ^ 32" and "hexval l < 2 ^ 32" and "18 \<le> bufsize"
  shows "\<exists>v. parse_lsn (u @ ''/'' @ l) = Some v
             \<and> format_lsn v bufsize = fmt_X (hexval u) @ ''/'' @ fmt_X (hexval l)
             \<and> parse_lsn (format_lsn v bufsize) = Some v"
proof -
  let ?v = "push_bit 32 (strtoul_value (hexval u)) OR strtoul_value (hexval l)"
  have p: "parse_lsn (u @ ''/'' @ l) = Some ?v"
    using parse_lsn_hex [OF assms(1-4)] by simp
  have f: "format_lsn ?v bufsize = fmt_X (hexval u) @ ''/'' @ fmt_X (hexval l)"
    by (rule format_lsn_halves [OF assms(5-7)])
  have "parse_lsn (fmt_X (hexval u) @ CHR ''/'' # fmt_X (hexval l)) = Some ?v"
    using parse_lsn_hex [of "fmt_X (hexval u)" "fmt_X (hexval l)"]
    by (simp add: fmt_X_hex hexval_fmt_X)
  with p f show ?thesis
    by simp
qed

theorem format_parse_roundtrip_witness:
  "list_all isxdigit ''abcd'' \<and> list_all isxdigit ''00ef123456''
   \<and> hexval ''abcd'' < 2 ^ 32 \<and> hexval ''00ef123456'' < 2 ^ 32
   \<and> (\<exists>v. parse_lsn ''abcd/00ef123456'' = Some v
            \<and> format_lsn v 64 = ''ABCD/EF123456''
            \<and> parse_lsn (format_lsn v 64) = Some v)"
proof -
  have h: "''abcd'' \<noteq> []" "list_all isxdigit ''abcd''"
      "''00ef123456'' \<noteq> []" "list_all isxdigit ''00ef123456''"
    by (simp_all add: isxdigit_def)
  have c: "hexval ''abcd'' = 43981" "hexval ''00ef123456'' = 4010947670"
    by (simp_all add: hexval_def hexdigit_val_def)
  have b: "hexval ''abcd'' < 2 ^ 32" "hexval ''00ef123456'' < 2 ^ 32"
    unfolding c by simp_all
  have x: "fmt_X 43981 = ''ABCD''" "fmt_X 4010947670 = ''EF123456''"
    by (simp_all add: fmt_X.simps hex_char_upper_def)
  have "(18::nat) \<le> 64"
    by simp
  from format_parse_roundtrip [OF h b this]
  have "\<exists>v. parse_lsn ''abcd/00ef123456'' = Some v
            \<and> format_lsn v 64 = ''ABCD/EF123456''
            \<and> parse_lsn (format_lsn v 64) = Some v"
    unfolding c x by simp
  with h b show ?thesis
    by simp
qed

section \<open>Paths of the example backup\<close>

lemma str_copy_short: "length src < destsize \<Longrightarrow> str_copy src destsize = src"
  by (simp add: str_copy_def)

lemma path_join_short:
  assumes "length path1 + length path2 + 2 \<le> destsize" and "path1 \<noteq> []"
  shows "path_join destsize path1 path2
           = (if last path1 = CHR ''/'' then path1 else path1 @ ''/'')
               @ (case path2 of [] \<Rightarrow> [] | c # cs \<Rightarrow> if c = CHR ''/'' then cs else path2)"
proof -
  have "length (case path2 of [] \<Rightarrow> [] | c # cs \<Rightarrow> if c = CHR ''/'' then cs else path2)
          \<le> length path2"
    by (cases path2) simp_all
  then show ?thesis
    using assms by (auto simp: path_join_def Let_def str_copy_def)
qed

lemma join_backup_control:
  "path_join PATH_MAX ''/backups/main/SB1A2B'' ''backup.control''
     = ''/backups/main/SB1A2B/backup.control''"
  by (subst path_join_short) (simp_all add: PATH_MAX_def)

lemma join_backup_database:
  "path_join PATH_MAX ''/backups/main/SB1A2B'' ''database'' = ''/backups/main/SB1A2B/database''"
  by (subst path_join_short) (simp_all add: PATH_MAX_def)

lemma join_database_control:
  "path_join PATH_MAX ''/backups/main/SB1A2B/database'' ''backup.control''
     = ''/backups/main/SB1A2B/database/backup.control''"
  by (subst path_join_short) (simp_all add: PATH_MAX_def)

lemma join_database_entries:
  "path_join PATH_MAX ''/backups/main/SB1A2B/database/'' ''base''
     = ''/backups/main/SB1A2B/database/base''"
  "path_join PATH_MAX ''/backups/main/SB1A2B/database/'' ''global''
     = ''/backups/main/SB1A2B/database/global''"
  "path_join PATH_MAX ''/backups/main/SB1A2B/database/'' ''backup_label''
     = ''/backups/main/SB1A2B/database/backup_label''"
  by (subst path_join_short; simp add: PATH_MAX_def)+

lemma last_slash_database:
  "strrchr ''/backups/main/SB1A2B/database'' (CHR ''/'') = Some 20"
  "strrchr ''/backups/main/SB1A2B/database/'' (CHR ''/'') = Some 29"
  by (simp_all add: strrchr_def)

lemma short_of_PATH_MAX: "20 < PATH_MAX" "29 < PATH_MAX"
  by (simp_all add: PATH_MAX_def)

lemma probackup_detect_example:
  "pg_probackup_detect (probackup_fs c) ''/backups/main/SB1A2B''"
  by (simp add: pg_probackup_detect_def Let_def join_backup_control join_backup_database
        is_directory_def file_exists_def probackup_fs_def probackup_stat_def)

section \<open>Detection of a nested data directory\<close>

text \<open>
  Where the path has a slash that is not its first character, the sibling-exclusion rule
  of \<open>pg_basebackup_detect\<close> works on the text before the last slash: when
  \<^verbatim>\<open>backup.control\<close> exists there, detection returns false.
\<close>

lemma basebackup_detect_skips_nested:
  assumes "strrchr path (CHR ''/'') = Some k" and "0 < k" and "k < PATH_MAX"
    and "file_exists fs (path_join PATH_MAX (take k path) ''backup.control'')"
  shows "\<not> pg_basebackup_detect fs path"
  using assms by (simp add: pg_basebackup_detect_def parent_has_control_def)

text \<open>
  Claim C5 says that for every directory whose parent directory contains
  \<^verbatim>\<open>backup.control\<close>, \<open>pg_basebackup_detect\<close> returns false. The code at the data
  subdirectory of the example pg_probackup backup: named without a trailing slash it is
  skipped; named with a trailing slash the text before the last slash is the directory
  itself, no control file is found there, the plain-format test succeeds, and the registry
  reports the directory as a pg_basebackup backup.
\<close>

theorem basebackup_detect_trailing_slash:
  "file_exists (probackup_fs c) ''/backups/main/SB1A2B/backup.control''
   \<and> pg_probackup_detect (probackup_fs c) ''/backups/main/SB1A2B''
   \<and> \<not> pg_basebackup_detect (probackup_fs c) ''/backups/main/SB1A2B/database''
   \<and> pg_basebackup_detect (probackup_fs c) ''/backups/main/SB1A2B/database/''
   \<and> detect_backup_type (probackup_fs c) ''/backups/main/SB1A2B/database/''
       = Some pg_basebackup_adapter"
proof -
  have 1: "file_exists (probackup_fs c) ''/backups/main/SB1A2B/backup.control''"
    by (simp add: file_exists_def probackup_fs_def probackup_stat_def)
  have 2: "\<not> pg_basebackup_detect (probackup_fs c) ''/backups/main/SB1A2B/database''"
    by (simp add: pg_basebackup_detect_def parent_has_control_def last_slash_database
          join_backup_control short_of_PATH_MAX
          is_directory_def file_exists_def probackup_fs_def probackup_stat_def)
  have 3: "pg_basebackup_detect (probackup_fs c) ''/backups/main/SB1A2B/database/''"
    by (simp add: pg_basebackup_detect_def parent_has_control_def last_slash_database
          join_database_control join_database_entries short_of_PATH_MAX
          is_tar_format_def is_plain_format_def Let_def
          is_directory_def file_exists_def probackup_fs_def probackup_stat_def
          probackup_readdir_def)
  from 1 2 3 probackup_detect_example [of c] show ?thesis
    by (simp add: detect_backup_type_def)
qed

section \<open>Scanning a pg_probackup backup with unusable metadata\<close>

text \<open>
  The status of a pg_probackup record is the one its control file states; nothing else
  in \<open>pg_probackup_read_metadata\<close> sets it.
\<close>

lemma control_status_line:
  "control_line_step mktime (info, []) (''status = ERROR'' @ [CHR 0x0A])
     = (info\<lparr> status := BACKUP_STATUS_ERROR \<rparr>, [])"
  by (simp add: control_line_step_def parse_control_line_def strchr_def strip_trailing_def Let_def)

text \<open>
  Claim C4 says that a scan of a directory that detection accepts always produces a
  record, with status ERROR when the required metadata is malformed or absent. The code
  of \<open>pg_probackup_scan\<close> at the example backup, for every \<^verbatim>\<open>mktime\<close> and every
  initial content of the value buffer: when the control file exists but cannot be opened,
  the record is freed and no record is returned; when the control file has no line at
  all, a record is returned and its status is OK.
\<close>

theorem probackup_scan_not_tolerant:
  "pg_probackup_detect (probackup_fs None) ''/backups/main/SB1A2B''
   \<and> pg_probackup_scan (probackup_fs None) mktime value_init ''/backups/main/SB1A2B'' = None
   \<and> pg_probackup_detect (probackup_fs (Some [])) ''/backups/main/SB1A2B''
   \<and> (\<exists>info. pg_probackup_scan (probackup_fs (Some [])) mktime value_init
                  ''/backups/main/SB1A2B'' = Some info
               \<and> status info = BACKUP_STATUS_OK)"
proof (intro conjI)
  show "pg_probackup_detect (probackup_fs None) ''/backups/main/SB1A2B''"
    by (rule probackup_detect_example)
  show "pg_probackup_detect (probackup_fs (Some [])) ''/backups/main/SB1A2B''"
    by (rule probackup_detect_example)
  show "pg_probackup_scan (probackup_fs None) mktime value_init ''/backups/main/SB1A2B'' = None"
    by (simp add: pg_probackup_scan_def pg_probackup_read_metadata_def join_backup_control
          probackup_fs_def)
  have "pg_probackup_read_metadata (probackup_fs (Some [])) mktime value_init
          ''/backups/main/SB1A2B'' zeroed_backup
        = (STATUS_OK, zeroed_backup\<lparr> tool := BACKUP_TOOL_PG_PROBACKUP,
                                       backup_path := ''/backups/main/SB1A2B'' \<rparr>)"
    by (simp add: pg_probackup_read_metadata_def join_backup_control probackup_fs_def)
       (simp add: PATH_MAX_def)
  then show "\<exists>info. pg_probackup_scan (probackup_fs (Some [])) mktime value_init
                       ''/backups/main/SB1A2B'' = Some info
               \<and> status info = BACKUP_STATUS_OK"
    by (simp add: pg_probackup_scan_def Let_def extract_instance_name_def zeroed_backup_def
          split: option.split)
qed

end
